theory Spec2Isabelle
  imports Complex_Main
begin

section \<open>Python values, strings and exceptions\<close>

text \<open>
  A Python \<open>str\<close> is modelled as a \<open>string\<close> whose characters are the code points
  below 256; \<open>length\<close> is Python's \<open>len\<close>. The functions below are \<open>str.lower\<close>,
  \<open>str.isspace\<close>, \<open>str.strip\<close>, the operator \<open>in\<close> on strings, \<open>str.join\<close> and
  \<open>str.split\<close> restricted to that range.
\<close>

definition lower_char :: "char \<Rightarrow> char" where
  "lower_char c =
     (let n = (of_char c :: nat)
      in if (65 \<le> n \<and> n \<le> 90) \<or> (192 \<le> n \<and> n \<le> 222 \<and> n \<noteq> 215)
         then char_of (n + 32) else c)"

definition lower :: "string \<Rightarrow> string" where
  "lower s = map lower_char s"

definition isspace :: "char \<Rightarrow> bool" where
  "isspace c = ((of_char c :: nat) \<in> set [9, 10, 11, 12, 13, 28, 29, 30, 31, 32, 133, 160])"

definition lstrip :: "string \<Rightarrow> string" where
  "lstrip s = dropWhile isspace s"

definition rstrip :: "string \<Rightarrow> string" where
  "rstrip s = rev (dropWhile isspace (rev s))"

definition strip :: "string \<Rightarrow> string" where
  "strip s = rstrip (lstrip s)"

text \<open>\<open>startswith t s\<close> is \<open>s.startswith(t)\<close>; \<open>str_in t s\<close> is \<open>t in s\<close>.\<close>

fun startswith :: "string \<Rightarrow> string \<Rightarrow> bool" where
  "startswith [] s = True"
| "startswith (a # t) [] = False"
| "startswith (a # t) (b # s) = (a = b \<and> startswith t s)"

fun str_in :: "string \<Rightarrow> string \<Rightarrow> bool" where
  "str_in t [] = (t = [])"
| "str_in t (c # s) = (startswith t (c # s) \<or> str_in t s)"

text \<open>
  The values a caller can pass where the source expects a language code: the tests pass
  \<open>None\<close>, booleans, numbers, lists and strings. \<open>truthy\<close> is Python's truth value,
  \<open>isinstance_str v\<close> is \<open>isinstance(v, str)\<close>.
\<close>

datatype pyval = PNone | PBool bool | PInt int | PStr string | PList "pyval list"

fun truthy :: "pyval \<Rightarrow> bool" where
  "truthy PNone = False"
| "truthy (PBool b) = b"
| "truthy (PInt i) = (i \<noteq> 0)"
| "truthy (PStr s) = (s \<noteq> [])"
| "truthy (PList xs) = (xs \<noteq> [])"

fun isinstance_str :: "pyval \<Rightarrow> bool" where
  "isinstance_str (PStr s) = True"
| "isinstance_str v = False"

text \<open>
  Exceptions carry their class and their message (\<open>str(e)\<close>). The classes are the ones
  of \<open>error_handler.py\<close> and the built-in ones the modelled code can raise. Only
  subclasses of \<open>Exception\<close> are modelled, which is what \<open>except Exception\<close> catches.
\<close>

datatype exc_class =
  Exception | AttributeError | ValueError | OverflowError
  | NewsFlashError | LanguageError | SentimentAnalysisError | AIServiceError | TTSError

datatype exc = Exc (exc_class: exc_class) (message: string)

text \<open>The method call \<open>v.lower()\<close>: defined on strings, an \<open>AttributeError\<close> otherwise.\<close>

fun lower_method :: "pyval \<Rightarrow> exc + string" where
  "lower_method (PStr s) = Inr (lower s)"
| "lower_method v = Inl (Exc AttributeError ''object has no attribute lower'')"


section \<open>language_service.py\<close>

record lang_data =
  name :: string
  native :: "nat list"
  tts_code :: string
  enabled :: bool

text \<open>
  The dictionary \<open>LanguageService.SUPPORTED_LANGUAGES\<close>, in the order of the source. The
  native names are kept as lists of Unicode code points.
\<close>

definition SUPPORTED_LANGUAGES :: "(string \<times> lang_data) list" where
  "SUPPORTED_LANGUAGES =
     [(''en'', \<lparr>name = ''English'', native = [69, 110, 103, 108, 105, 115, 104],
               tts_code = ''en'', enabled = True\<rparr>),
      (''hi'', \<lparr>name = ''Hindi'', native = [2361, 2367, 2306, 2342, 2368],
               tts_code = ''hi'', enabled = True\<rparr>),
      (''mr'', \<lparr>name = ''Marathi'', native = [2350, 2352, 2366, 2336, 2368],
               tts_code = ''mr'', enabled = True\<rparr>)]"

definition DEFAULT_LANGUAGE :: string where
  "DEFAULT_LANGUAGE = ''en''"

definition validate_language :: "pyval \<Rightarrow> bool" where
  "validate_language language_code =
     (if \<not> truthy language_code \<or> \<not> isinstance_str language_code then False
      else (case language_code of
              PStr s \<Rightarrow>
                (case map_of SUPPORTED_LANGUAGES (strip (lower s)) of
                   None \<Rightarrow> False
                 | Some lang_data \<Rightarrow> enabled lang_data)
            | _ \<Rightarrow> False))"

definition get_default_language :: string where
  "get_default_language = DEFAULT_LANGUAGE"

definition normalize_language_code :: "pyval \<Rightarrow> string option" where
  "normalize_language_code language_code =
     (if \<not> truthy language_code \<or> \<not> isinstance_str language_code then None
      else (case language_code of
              PStr s \<Rightarrow>
                (let normalized = strip (lower s)
                 in if validate_language (PStr normalized) then Some normalized else None)
            | _ \<Rightarrow> None))"

definition get_fallback_language :: "pyval \<Rightarrow> exc + string" where
  "get_fallback_language language_code =
     (if validate_language language_code then lower_method language_code
      else Inr DEFAULT_LANGUAGE)"


section \<open>config.py\<close>

text \<open>
  The error-handling settings of class \<open>Config\<close>. They are class attributes that the
  tests patch, so the functions below take the configuration as a parameter;
  \<open>Config\<close> holds the values written in the source.
\<close>

record config =
  MAX_RETRY_ATTEMPTS :: int
  RETRY_DELAY :: rat
  ENABLE_FALLBACK_LOGGING :: bool
  SENTIMENT_FALLBACK_ENABLED :: bool
  LANGUAGE_FALLBACK_ENABLED :: bool

definition Config :: config where
  "Config = \<lparr>MAX_RETRY_ATTEMPTS = 3, RETRY_DELAY = 1, ENABLE_FALLBACK_LOGGING = True,
             SENTIMENT_FALLBACK_ENABLED = True, LANGUAGE_FALLBACK_ENABLED = True\<rparr>"


section \<open>error_handler.py\<close>

subsection \<open>Effects\<close>

text \<open>
  A wrapped function reads and changes a state of type \<open>'s\<close> and either raises or returns:
  \<open>'s \<Rightarrow> (exc + 'a) \<times> 's\<close>. Every wrapper returns, with its own result and the final
  state, the list of the effects it performed, in order: the invocations of the wrapped
  function, the calls of \<open>time.sleep\<close>, and the records handed to the logger (each log
  event carries the arguments from which the source formats the message). Delays are
  rational numbers.
\<close>

datatype event =
  Call
  | CallLang string
  | Sleep rat
  | LogLanguageError string string exc "string option"
  | LogSentimentError string exc string
  | LogAIServiceError string string exc nat
  | LogRetryInfo string rat nat int

definition log_language_error :: "config \<Rightarrow> string \<Rightarrow> string \<Rightarrow> exc \<Rightarrow> string option \<Rightarrow> event list" where
  "log_language_error cfg operation language error fallback_used =
     (if ENABLE_FALLBACK_LOGGING cfg
      then [LogLanguageError operation language error fallback_used] else [])"

definition log_sentiment_error :: "config \<Rightarrow> string \<Rightarrow> exc \<Rightarrow> string \<Rightarrow> event list" where
  "log_sentiment_error cfg operation error fallback_used =
     (if ENABLE_FALLBACK_LOGGING cfg
      then [LogSentimentError operation error fallback_used] else [])"

definition log_ai_service_error :: "string \<Rightarrow> exc \<Rightarrow> nat \<Rightarrow> event list" where
  "log_ai_service_error operation error retry_count =
     (let error_str = lower (message error);
          error_type =
            (if str_in ''429'' (message error) \<or> str_in ''quota'' error_str
                \<or> str_in ''rate limit'' error_str
             then ''Rate limit'' else ''AI service'')
      in [LogAIServiceError error_type operation error retry_count])"

subsection \<open>Classification of errors\<close>

definition retryable_indicators :: "string list" where
  "retryable_indicators =
     [''timeout'', ''connection'', ''network'', ''temporary'', ''503'', ''502'', ''500'',
      ''rate limit'', ''429'', ''quota exceeded'', ''service unavailable'']"

definition non_retryable_indicators :: "string list" where
  "non_retryable_indicators =
     [''401'', ''403'', ''404'', ''invalid api key'', ''authentication'', ''authorization'',
      ''bad request'', ''400'', ''not found'']"

text \<open>
  The loop \<open>for indicator in indicators: if indicator in error_str: return ...\<close>:
  \<open>True\<close> when the loop reaches its \<open>return\<close>.
\<close>

fun any_indicator_in :: "string list \<Rightarrow> string \<Rightarrow> bool" where
  "any_indicator_in [] error_str = False"
| "any_indicator_in (indicator # rest) error_str =
     (if str_in indicator error_str then True else any_indicator_in rest error_str)"

definition is_retryable_error :: "exc \<Rightarrow> bool" where
  "is_retryable_error error =
     (let error_str = lower (message error)
      in if any_indicator_in non_retryable_indicators error_str then False
         else if any_indicator_in retryable_indicators error_str then True
         else True)"

subsection \<open>Retry\<close>

text \<open>
  \<open>py_or x d\<close> is \<open>x or d\<close> for an optional number: \<open>None\<close> and zero are falsy.
\<close>

definition py_or :: "('a::zero) option \<Rightarrow> 'a \<Rightarrow> 'a" where
  "py_or x d = (case x of None \<Rightarrow> d | Some v \<Rightarrow> if v = 0 then d else v)"

text \<open>
  \<open>time.sleep(secs)\<close>, as far as it can fail: CPython turns the delay into a signed
  64-bit count of nanoseconds and raises \<open>OverflowError\<close> when it does not fit (a delay
  above \<open>sleep_max\<close> seconds, or below \<open>- 2^63\<close> nanoseconds), then raises
  \<open>ValueError\<close> for a negative delay. \<open>None\<close> means that the call sleeps and returns.
  A delay is read as the exact number it denotes, and the product
  \<open>base_delay * (2 ** attempt)\<close> is exact (as it is for an integer \<open>base_delay\<close> such as
  \<open>Config.RETRY_DELAY\<close>); the rounding of floating-point numbers is not modelled.
\<close>

definition sleep_max :: rat where
  "sleep_max = 9223372036854775807 / 1000000000"

definition time_sleep :: "rat \<Rightarrow> exc option" where
  "time_sleep secs =
     (if sleep_max < secs \<or> secs * 1000000000 < - 9223372036854775808
      then Some (Exc OverflowError ''timestamp too large to convert to C _PyTime_t'')
      else if secs < 0 then Some (Exc ValueError ''sleep length must be non-negative'')
      else None)"

text \<open>
  The delay before the next attempt:
  \<open>base_delay * (2 ** attempt) if exponential_backoff else base_delay\<close>.
\<close>

definition retry_delay :: "rat \<Rightarrow> bool \<Rightarrow> nat \<Rightarrow> rat" where
  "retry_delay base_delay exponential_backoff attempt =
     (if exponential_backoff then base_delay * 2 ^ attempt else base_delay)"

text \<open>
  The loop \<open>for attempt in range(max_attempts)\<close> of the wrapper, from iteration
  \<open>attempt\<close> on, followed by the final \<open>raise AIServiceError\<close>. An exception of
  \<open>time.sleep\<close> is raised inside the handler, so it leaves the wrapper.
\<close>

function retry_from ::
  "int \<Rightarrow> rat \<Rightarrow> bool \<Rightarrow> string \<Rightarrow> ('s \<Rightarrow> (exc + 'a) \<times> 's) \<Rightarrow> nat \<Rightarrow> exc option \<Rightarrow> 's
     \<Rightarrow> (exc + 'a) \<times> 's \<times> event list" where
  "retry_from max_attempts base_delay exponential_backoff func_name func attempt last_exception s =
     (if int attempt < max_attempts then
        (case func s of
           (Inr v, s') \<Rightarrow> (Inr v, s', [Call])
         | (Inl e, s') \<Rightarrow>
             if \<not> is_retryable_error e then (Inl e, s', [Call])
             else if int attempt < max_attempts - 1 then
               (let delay = retry_delay base_delay exponential_backoff attempt;
                    logged = log_ai_service_error func_name e (attempt + 1)
                               @ [LogRetryInfo func_name delay (attempt + 1) max_attempts]
                in case time_sleep delay of
                     Some sleep_error \<Rightarrow> (Inl sleep_error, s', Call # logged)
                   | None \<Rightarrow>
                       (case retry_from max_attempts base_delay exponential_backoff func_name
                               func (attempt + 1) (Some e) s' of
                          (r, s'', evs) \<Rightarrow> (r, s'', Call # logged @ [Sleep delay] @ evs)))
             else
               (case retry_from max_attempts base_delay exponential_backoff func_name func
                       (attempt + 1) (Some e) s' of
                  (r, s'', evs) \<Rightarrow>
                    (r, s'', Call # log_ai_service_error func_name e (attempt + 1) @ evs)))
      else (Inl (Exc AIServiceError
                   (''All retry attempts failed in '' @ func_name @ '': ''
                      @ (case last_exception of None \<Rightarrow> ''None'' | Some e \<Rightarrow> message e))),
            s, []))"
  by pat_completeness auto
termination
  by (relation "measure (\<lambda>(max_attempts, _, _, _, _, attempt, _, _). nat (max_attempts - int attempt))")
     auto

declare retry_from.simps [simp del]

definition with_retry ::
  "config \<Rightarrow> int option \<Rightarrow> rat option \<Rightarrow> bool \<Rightarrow> string \<Rightarrow> ('s \<Rightarrow> (exc + 'a) \<times> 's) \<Rightarrow> 's
     \<Rightarrow> (exc + 'a) \<times> 's \<times> event list" where
  "with_retry cfg max_attempts base_delay exponential_backoff func_name func s =
     (let max_attempts' = py_or max_attempts (MAX_RETRY_ATTEMPTS cfg);
          base_delay' = py_or base_delay (RETRY_DELAY cfg)
      in retry_from max_attempts' base_delay' exponential_backoff func_name func 0 None s)"


subsection \<open>FallbackManager\<close>

definition get_language_fallback_chain :: "pyval \<Rightarrow> exc + string list" where
  "get_language_fallback_chain requested_language =
     (case (if validate_language requested_language
            then (case lower_method requested_language of
                    Inl e \<Rightarrow> Inl e
                  | Inr l \<Rightarrow> Inr [l])
            else Inr []) of
        Inl e \<Rightarrow> Inl e
      | Inr chain \<Rightarrow>
          (let default_lang = get_default_language
           in if default_lang \<notin> set chain then Inr (chain @ [default_lang]) else Inr chain))"

definition get_sentiment_fallback :: string where
  "get_sentiment_fallback = ''neutral''"

text \<open>
  \<open>slice_to s n\<close> is the slice \<open>s[:n]\<close> (a negative \<open>n\<close> counts from the end),
  \<open>join sep xs\<close> is \<open>sep.join(xs)\<close>, and \<open>split_dot_space acc s\<close> is \<open>s.split('. ')\<close>
  with the characters of the current fragment accumulated, reversed, in \<open>acc\<close>.
\<close>

definition slice_to :: "string \<Rightarrow> int \<Rightarrow> string" where
  "slice_to s n = (if 0 \<le> n then take (nat n) s else take (nat (int (length s) + n)) s)"

fun join :: "string \<Rightarrow> string list \<Rightarrow> string" where
  "join sep [] = []"
| "join sep [x] = x"
| "join sep (x # y # xs) = x @ sep @ join sep (y # xs)"

fun split_dot_space :: "string \<Rightarrow> string \<Rightarrow> string list" where
  "split_dot_space acc [] = [rev acc]"
| "split_dot_space acc [c] = [rev (c # acc)]"
| "split_dot_space acc (c # d # s) =
     (if c = CHR ''.'' \<and> d = CHR '' '' then rev acc # split_dot_space [] s
      else split_dot_space (c # acc) (d # s))"

definition create_fallback_summary :: "string \<Rightarrow> int \<Rightarrow> string" where
  "create_fallback_summary article_text max_length =
     (if article_text = [] \<or> length (strip article_text) = 0
      then ''No content available for summary.''
      else
        (let article_text = strip article_text
         in if int (length article_text) \<le> max_length then article_text
            else
              (let sentences = split_dot_space [] article_text;
                   summary = join ''. '' (take 2 sentences) @ ''.''
               in if 2 \<le> length sentences \<and> int (length summary) \<le> max_length then summary
                  else strip (slice_to article_text max_length) @ ''...'')))"

subsection \<open>Convenience functions and the sentiment decorator\<close>

text \<open>
  The loop of \<open>handle_language_operation\<close> over the languages still to try;
  \<open>fallback_chain\<close> is the whole chain, read by \<open>fallback_chain[-1]\<close> (the loop body only
  runs for a member of the chain, so the chain is not empty there). The first equation
  is the \<open>raise\<close> after the loop.
\<close>

fun language_loop ::
  "config \<Rightarrow> string \<Rightarrow> (string \<Rightarrow> 's \<Rightarrow> (exc + 'a) \<times> 's) \<Rightarrow> string list \<Rightarrow> string list \<Rightarrow> 's
     \<Rightarrow> (exc + 'a) \<times> 's \<times> event list" where
  "language_loop cfg operation_name operation_func fallback_chain [] s =
     (Inl (Exc LanguageError
             (''No valid languages in fallback chain for '' @ operation_name)), s, [])"
| "language_loop cfg operation_name operation_func fallback_chain (lang # rest) s =
     (case operation_func lang s of
        (Inr v, s') \<Rightarrow> (Inr v, s', [CallLang lang])
      | (Inl e, s') \<Rightarrow>
          if lang = last fallback_chain
          then (Inl (Exc LanguageError
                       (''All language fallbacks failed for '' @ operation_name @ '': ''
                          @ message e)),
                s', CallLang lang # log_language_error cfg operation_name lang e None)
          else (case language_loop cfg operation_name operation_func fallback_chain rest s' of
                  (r, s'', evs) \<Rightarrow>
                    (r, s'', CallLang lang # log_language_error cfg operation_name lang e None
                               @ evs)))"

definition handle_language_operation ::
  "config \<Rightarrow> string \<Rightarrow> pyval \<Rightarrow> (string \<Rightarrow> 's \<Rightarrow> (exc + 'a) \<times> 's) \<Rightarrow> 's
     \<Rightarrow> (exc + 'a) \<times> 's \<times> event list" where
  "handle_language_operation cfg operation_name language operation_func s =
     (case get_language_fallback_chain language of
        Inl e \<Rightarrow> (Inl e, s, [])
      | Inr fallback_chain \<Rightarrow>
          language_loop cfg operation_name operation_func fallback_chain fallback_chain s)"

definition handle_sentiment_operation ::
  "config \<Rightarrow> string \<Rightarrow> ('s \<Rightarrow> (exc + string) \<times> 's) \<Rightarrow> 's
     \<Rightarrow> (exc + string) \<times> 's \<times> event list" where
  "handle_sentiment_operation cfg operation_name operation_func s =
     (case operation_func s of
        (Inr v, s') \<Rightarrow> (Inr v, s', [Call])
      | (Inl e, s') \<Rightarrow>
          if SENTIMENT_FALLBACK_ENABLED cfg
          then (let fallback = get_sentiment_fallback
                in (Inr fallback, s', Call # log_sentiment_error cfg operation_name e fallback))
          else (Inl (Exc SentimentAnalysisError
                       (''Sentiment analysis failed for '' @ operation_name @ '': ''
                          @ message e)),
                s', Call # log_sentiment_error cfg operation_name e ''neutral''))"

text \<open>
  The decorator \<open>with_sentiment_fallback(fallback_sentiment)\<close> applied to \<open>func\<close>;
  the default value of \<open>fallback_sentiment\<close> is \<open>"neutral"\<close>.
\<close>

definition with_sentiment_fallback ::
  "config \<Rightarrow> string \<Rightarrow> string \<Rightarrow> ('s \<Rightarrow> (exc + string) \<times> 's) \<Rightarrow> 's
     \<Rightarrow> (exc + string) \<times> 's \<times> event list" where
  "with_sentiment_fallback cfg fallback_sentiment func_name func s =
     (case func s of
        (Inr v, s') \<Rightarrow> (Inr v, s', [Call])
      | (Inl e, s') \<Rightarrow>
          if SENTIMENT_FALLBACK_ENABLED cfg
          then (Inr fallback_sentiment, s',
                Call # log_sentiment_error cfg func_name e fallback_sentiment)
          else (Inl (Exc SentimentAnalysisError
                       (''Sentiment analysis failed in '' @ func_name @ '': '' @ message e)),
                s', Call # log_sentiment_error cfg func_name e ''neutral''))"


subsection \<open>Observations on runs\<close>

text \<open>
  Used only to state properties: the effects of a run, the delays slept, the state of the
  wrapped function after \<open>k\<close> invocations, and the state reached when the operation fails
  on every language of a list in turn (\<open>None\<close> if it succeeds on one of them).
\<close>

definition events :: "'r \<times> 's \<times> event list \<Rightarrow> event list" where
  "events run = snd (snd run)"

fun sleeps :: "event list \<Rightarrow> rat list" where
  "sleeps [] = []"
| "sleeps (Sleep d # evs) = d # sleeps evs"
| "sleeps (ev # evs) = sleeps evs"

fun lang_calls :: "event list \<Rightarrow> string list" where
  "lang_calls [] = []"
| "lang_calls (CallLang l # evs) = l # lang_calls evs"
| "lang_calls (ev # evs) = lang_calls evs"


fun failing_prefix :: "(string \<Rightarrow> 's \<Rightarrow> (exc + 'a) \<times> 's) \<Rightarrow> string list \<Rightarrow> 's \<Rightarrow> 's option" where
  "failing_prefix operation_func [] s = Some s"
| "failing_prefix operation_func (lang # rest) s =
     (case operation_func lang s of
        (Inl e, s') \<Rightarrow> failing_prefix operation_func rest s'
      | (Inr v, s') \<Rightarrow> None)"


subsection \<open>Sample wrapped functions\<close>

text \<open>
  Functions used to instantiate the theorems below; the state counts the invocations.
  \<open>always_timeout\<close> raises a transient error on every invocation.
\<close>

definition always_timeout :: "nat \<Rightarrow> (exc + string) \<times> nat" where
  "always_timeout k = (Inl (Exc Exception ''Connection timeout''), Suc k)"

text \<open>\<open>fatal_once\<close> raises an authentication error.\<close>

definition fatal_once :: "nat \<Rightarrow> (exc + string) \<times> nat" where
  "fatal_once k = (Inl (Exc Exception ''401 Unauthorized: invalid API key''), Suc k)"

text \<open>
  \<open>english_only\<close> succeeds for \<open>"en"\<close> only, \<open>never_works\<close> fails for every language;
  \<open>failing_sentiment\<close> raises and \<open>positive_sentiment\<close> returns.
\<close>

definition english_only :: "string \<Rightarrow> nat \<Rightarrow> (exc + string) \<times> nat" where
  "english_only lang k =
     (if lang = ''en'' then (Inr ''summary'', Suc k)
      else (Inl (Exc Exception ''unsupported model language''), Suc k))"

definition never_works :: "string \<Rightarrow> nat \<Rightarrow> (exc + string) \<times> nat" where
  "never_works lang k = (Inl (Exc Exception (''failed for '' @ lang)), Suc k)"

definition failing_sentiment :: "nat \<Rightarrow> (exc + string) \<times> nat" where
  "failing_sentiment k = (Inl (Exc Exception ''model unavailable''), Suc k)"

definition positive_sentiment :: "nat \<Rightarrow> (exc + string) \<times> nat" where
  "positive_sentiment k = (Inr ''positive'', Suc k)"


section \<open>Properties of the string functions\<close>

lemma startswith_iff: "startswith t s \<longleftrightarrow> (\<exists>v. s = t @ v)"
  by (induction t s rule: startswith.induct) auto

lemma str_in_iff: "str_in t s \<longleftrightarrow> (\<exists>u v. s = u @ t @ v)"
proof (induction s)
  case Nil
  then show ?case by auto
next
  case (Cons c s)
  show ?case
  proof
    assume "str_in t (c # s)"
    then consider "startswith t (c # s)" | "str_in t s" by auto
    then show "\<exists>u v. c # s = u @ t @ v"
    proof cases
      case 1
      then obtain v where "c # s = t @ v" by (auto simp: startswith_iff)
      then have "c # s = [] @ t @ v" by simp
      then show ?thesis by blast
    next
      case 2
      then obtain u v where "s = u @ t @ v" using Cons.IH by auto
      then have "c # s = (c # u) @ t @ v" by simp
      then show ?thesis by blast
    qed
  next
    assume "\<exists>u v. c # s = u @ t @ v"
    then obtain u v where uv: "c # s = u @ t @ v" by blast
    show "str_in t (c # s)"
    proof (cases u)
      case Nil
      with uv have "startswith t (c # s)" by (auto simp: startswith_iff)
      then show ?thesis by simp
    next
      case (Cons a u')
      with uv have "s = u' @ t @ v" by simp
      then have "str_in t s" using Cons.IH by blast
      then show ?thesis by simp
    qed
  qed
qed

lemma dropWhile_all: "(\<forall>x \<in> set (dropWhile P xs). P x) \<longleftrightarrow> (\<forall>x \<in> set xs. P x)"
proof
  assume a: "\<forall>x \<in> set (dropWhile P xs). P x"
  have "dropWhile P xs = []"
  proof (rule ccontr)
    assume n: "dropWhile P xs \<noteq> []"
    then have "\<not> P (hd (dropWhile P xs))" by (rule hd_dropWhile)
    moreover have "hd (dropWhile P xs) \<in> set (dropWhile P xs)" using n by simp
    ultimately show False using a by blast
  qed
  then show "\<forall>x \<in> set xs. P x" by (simp add: dropWhile_eq_Nil_conv)
next
  assume "\<forall>x \<in> set xs. P x"
  then show "\<forall>x \<in> set (dropWhile P xs). P x" using set_dropWhileD by fast
qed

lemma strip_empty_iff: "strip s = [] \<longleftrightarrow> (\<forall>c \<in> set s. isspace c)"
  by (simp add: strip_def lstrip_def rstrip_def dropWhile_eq_Nil_conv dropWhile_all)

lemma any_indicator_in_iff: "any_indicator_in xs s \<longleftrightarrow> (\<exists>i \<in> set xs. str_in i s)"
  by (induction xs) auto


section \<open>Language catalogue\<close>

lemma validate_language_str: "validate_language v \<Longrightarrow> \<exists>s. v = PStr s \<and> s \<noteq> []"
  by (cases v) (auto simp: validate_language_def)

lemma validate_language_codes:
  "validate_language (PStr s) \<longleftrightarrow> strip (lower s) \<in> {''en'', ''hi'', ''mr''}"
  by (auto simp: validate_language_def SUPPORTED_LANGUAGES_def strip_def rstrip_def lstrip_def lower_def split: option.splits if_splits)

lemma lower_en_valid: "lower s = ''en'' \<Longrightarrow> validate_language (PStr s)"
proof -
  assume a: "lower s = ''en''"
  have "strip ''en'' = ''en''" by code_simp
  with a show ?thesis by (simp add: validate_language_codes)
qed

text \<open>
  \<open>get_fallback_language\<close> never raises, and answers the default code for every input
  that \<open>validate_language\<close> rejects.
\<close>

lemma get_fallback_language_total: "\<exists>code. get_fallback_language v = Inr code"
  by (cases v) (auto simp: get_fallback_language_def validate_language_def)

lemma get_fallback_language_unsupported:
  "\<not> validate_language v \<Longrightarrow> get_fallback_language v = Inr ''en''"
  by (simp add: get_fallback_language_def DEFAULT_LANGUAGE_def)

text \<open>
  Claim C1. The claim asks for the normalised (lowercased and trimmed) code for a
  supported code written with surrounding whitespace. \<open>validate_language\<close> trims before
  the lookup, but \<open>get_fallback_language\<close> returns \<open>language_code.lower()\<close> untrimmed:
  for \<open>" hi "\<close> the code is accepted and the answer is \<open>" hi "\<close>, where the normalised
  code (and the answer of \<open>normalize_language_code\<close>) is \<open>"hi"\<close>.
\<close>

theorem get_fallback_language_keeps_whitespace:
  "validate_language (PStr '' hi '') \<and> get_fallback_language (PStr '' hi '') = Inr '' hi ''
     \<and> strip (lower '' hi '') = ''hi'' \<and> normalize_language_code (PStr '' hi '') = Some ''hi''"
  by code_simp

text \<open>The answer for \<open>" hi "\<close> is not the normalised code.\<close>

theorem get_fallback_language_keeps_whitespace_witness:
  "get_fallback_language (PStr '' hi '') \<noteq> Inr (strip (lower '' hi ''))"
  using get_fallback_language_keeps_whitespace by simp

section \<open>Classification of errors\<close>

text \<open>
  Claim C2, as stated, fails: a message with a transient indicator and a fatal one is
  not retryable, since the fatal indicators are checked first.
\<close>

theorem is_retryable_error_transient_counterexample:
  "str_in ''timeout'' (lower (message (Exc Exception ''Timeout while fetching: 404'')))
     \<and> \<not> is_retryable_error (Exc Exception ''Timeout while fetching: 404'')"
  by code_simp

text \<open>
  Claim C2 (amended). Every error whose lowercased message contains one of the transient
  indicators "timeout", "connection", "network", "503", "502", "500", "429",
  "rate limit", "quota exceeded", "service unavailable", and none of the fatal
  indicators, is classified as retryable.
\<close>

theorem is_retryable_error_transient:
  assumes "indicator \<in> set [''timeout'', ''connection'', ''network'', ''503'', ''502'', ''500'',
                              ''429'', ''rate limit'', ''quota exceeded'', ''service unavailable'']"
    and "str_in indicator (lower (message error))"
    and "\<forall>fatal \<in> set non_retryable_indicators. \<not> str_in fatal (lower (message error))"
  shows "is_retryable_error error"
  using assms(3) by (simp add: is_retryable_error_def any_indicator_in_iff)

text \<open>The amended claim C2 at the message \<open>"Connection Timeout"\<close>.\<close>

theorem is_retryable_error_transient_witness:
  "''timeout'' \<in> set [''timeout'', ''connection'', ''network'', ''503'', ''502'', ''500'',
                        ''429'', ''rate limit'', ''quota exceeded'', ''service unavailable'']
     \<and> str_in ''timeout'' (lower (message (Exc Exception ''Connection Timeout'')))
     \<and> \<not> any_indicator_in non_retryable_indicators
             (lower (message (Exc Exception ''Connection Timeout'')))
     \<and> is_retryable_error (Exc Exception ''Connection Timeout'')"
proof -
  have h1: "''timeout'' \<in> set [''timeout'', ''connection'', ''network'', ''503'', ''502'', ''500'',
                        ''429'', ''rate limit'', ''quota exceeded'', ''service unavailable'']"
    by simp
  have h2: "str_in ''timeout'' (lower (message (Exc Exception ''Connection Timeout'')))"
    by code_simp
  have h3: "\<not> any_indicator_in non_retryable_indicators
               (lower (message (Exc Exception ''Connection Timeout'')))"
    by code_simp
  then have h3': "\<forall>fatal \<in> set non_retryable_indicators.
            \<not> str_in fatal (lower (message (Exc Exception ''Connection Timeout'')))"
    by (simp add: any_indicator_in_iff)
  from is_retryable_error_transient [OF h1 h2 h3'] h1 h2 h3 show ?thesis by blast
qed

text \<open>
  Claim C3. Every error whose lowercased message contains one of the fatal indicators
  "401", "403", "404", "400", "invalid api key", "authentication", "authorization",
  "bad request", "not found" is classified as not retryable, whatever else the message
  contains (so also when it contains a transient indicator).
\<close>

theorem is_retryable_error_fatal:
  assumes "indicator \<in> set [''401'', ''403'', ''404'', ''400'', ''invalid api key'',
                              ''authentication'', ''authorization'', ''bad request'', ''not found'']"
    and "str_in indicator (lower (message error))"
  shows "\<not> is_retryable_error error"
proof -
  from assms(1) have "indicator \<in> set non_retryable_indicators"
    by (auto simp: non_retryable_indicators_def)
  with assms(2) have "any_indicator_in non_retryable_indicators (lower (message error))"
    unfolding any_indicator_in_iff by blast
  then show ?thesis by (simp add: is_retryable_error_def)
qed

text \<open>Claim C3 at a message that holds a fatal and a transient indicator.\<close>

theorem is_retryable_error_fatal_witness:
  "''not found'' \<in> set [''401'', ''403'', ''404'', ''400'', ''invalid api key'',
                          ''authentication'', ''authorization'', ''bad request'', ''not found'']
     \<and> str_in ''not found'' (lower (message (Exc Exception ''Connection timeout: Not Found'')))
     \<and> str_in ''timeout'' (lower (message (Exc Exception ''Connection timeout: Not Found'')))
     \<and> \<not> is_retryable_error (Exc Exception ''Connection timeout: Not Found'')"
proof -
  have h1: "''not found'' \<in> set [''401'', ''403'', ''404'', ''400'', ''invalid api key'',
                          ''authentication'', ''authorization'', ''bad request'', ''not found'']"
    by simp
  have h2: "str_in ''not found'' (lower (message (Exc Exception ''Connection timeout: Not Found'')))"
    by code_simp
  have h3: "str_in ''timeout'' (lower (message (Exc Exception ''Connection timeout: Not Found'')))"
    by code_simp
  from is_retryable_error_fatal [OF h1 h2] h1 h2 h3 show ?thesis by blast
qed


section \<open>Fallback chain\<close>

text \<open>The chain for an input that is rejected, and for a string that is accepted.\<close>

lemma get_language_fallback_chain_invalid:
  "\<not> validate_language v \<Longrightarrow> get_language_fallback_chain v = Inr [''en'']"
  by (simp add: get_language_fallback_chain_def get_default_language_def DEFAULT_LANGUAGE_def)

lemma get_language_fallback_chain_valid:
  "validate_language (PStr t) \<Longrightarrow>
   get_language_fallback_chain (PStr t) =
     Inr (if lower t = ''en'' then [''en''] else [lower t, ''en''])"
  by (simp add: get_language_fallback_chain_def get_default_language_def DEFAULT_LANGUAGE_def)

lemma get_language_fallback_chain_distinct:
  assumes "get_language_fallback_chain language = Inr chain"
  shows "distinct chain"
proof (cases "validate_language language")
  case True
  then obtain t where "language = PStr t" using validate_language_str by blast
  with True assms get_language_fallback_chain_valid [of t] show ?thesis
    by (auto split: if_splits)
next
  case False
  with assms show ?thesis by (auto simp: get_language_fallback_chain_invalid)
qed

text \<open>
  What \<open>get_language_fallback_chain\<close> returns: it never raises, and the list is not
  empty, has 1 or 2 elements and ends with \<open>"en"\<close>. A string that
  \<open>validate_language\<close> accepts and whose lowercased form is not \<open>"en"\<close> gives
  \<open>[requested.lower(), "en"]\<close>, a string whose lowercased form is \<open>"en"\<close> gives
  \<open>["en"]\<close>, and every rejected input gives \<open>["en"]\<close>. The first element keeps the
  whitespace of the request.
\<close>

lemma get_language_fallback_chain_cases:
  "(\<exists>chain. get_language_fallback_chain requested = Inr chain \<and> chain \<noteq> [] \<and> distinct chain
       \<and> last chain = ''en'' \<and> (length chain = 1 \<or> length chain = 2))
   \<and> (validate_language (PStr s) \<and> lower s \<noteq> ''en''
          \<longrightarrow> get_language_fallback_chain (PStr s) = Inr [lower s, ''en''])
   \<and> (lower s = ''en'' \<longrightarrow> get_language_fallback_chain (PStr s) = Inr [''en''])
   \<and> (\<not> validate_language requested \<longrightarrow> get_language_fallback_chain requested = Inr [''en''])
   \<and> (\<not> isinstance_str requested \<longrightarrow> get_language_fallback_chain requested = Inr [''en''])
   \<and> get_language_fallback_chain PNone = Inr [''en'']
   \<and> get_language_fallback_chain (PStr []) = Inr [''en'']"
proof -
  have shape: "\<exists>chain. get_language_fallback_chain requested = Inr chain \<and> chain \<noteq> []
       \<and> distinct chain \<and> last chain = ''en'' \<and> (length chain = 1 \<or> length chain = 2)"
  proof (cases "validate_language requested")
    case True
    then obtain t where "requested = PStr t" using validate_language_str by blast
    with True get_language_fallback_chain_valid [of t] show ?thesis by auto
  next
    case False
    then show ?thesis by (simp add: get_language_fallback_chain_invalid)
  qed
  have nostr: "\<not> validate_language v" if "\<not> isinstance_str v" for v
    using that by (simp add: validate_language_def)
  have "\<not> validate_language PNone" "\<not> validate_language (PStr [])"
    by (simp_all add: validate_language_def)
  with shape get_language_fallback_chain_valid [of s] get_language_fallback_chain_invalid
       nostr lower_en_valid [of s]
  show ?thesis by simp
qed

text \<open>
  Claim C6. The claim asks for \<open>["en"]\<close> when the default code is requested, and for a
  chain without a duplicate. \<open>validate_language\<close> trims before the lookup and accepts
  \<open>" en "\<close> as the default code \<open>"en"\<close>, but the chain receives
  \<open>requested_language.lower()\<close> untrimmed, and the test \<open>default_lang not in chain\<close> then
  adds the default again: the chain is \<open>[" en ", "en"]\<close>, the default language twice.
\<close>

theorem get_language_fallback_chain_padded_default:
  "validate_language (PStr '' en '')
   \<and> strip (lower '' en '') = get_default_language
   \<and> get_language_fallback_chain (PStr '' en '') = Inr ['' en '', ''en'']"
  by code_simp

text \<open>The chain for \<open>" en "\<close> is not \<open>["en"]\<close>.\<close>

theorem get_language_fallback_chain_padded_default_witness:
  "get_language_fallback_chain (PStr '' en '') \<noteq> Inr [''en'']"
  using get_language_fallback_chain_padded_default by simp


section \<open>Retry\<close>

lemma count_log_ai [simp]: "count_list (log_ai_service_error fname e k) Call = 0"
  by (simp add: log_ai_service_error_def Let_def)

lemma sleeps_append [simp]: "sleeps (xs @ ys) = sleeps xs @ sleeps ys"
  by (induction xs rule: sleeps.induct) auto

lemma sleeps_log_ai [simp]: "sleeps (log_ai_service_error fname e k) = []"
  by (simp add: log_ai_service_error_def Let_def)

lemma retry_from_done:
  "\<not> int attempt < max_attempts \<Longrightarrow>
   retry_from max_attempts base_delay eb fname func attempt lexc s =
     (Inl (Exc AIServiceError
             (''All retry attempts failed in '' @ fname @ '': ''
                @ (case lexc of None \<Rightarrow> ''None'' | Some e \<Rightarrow> message e))), s, [])"
  by (subst retry_from.simps) simp

lemma retry_from_success:
  "int attempt < max_attempts \<Longrightarrow> func s = (Inr v, s') \<Longrightarrow>
   retry_from max_attempts base_delay eb fname func attempt lexc s = (Inr v, s', [Call])"
  by (subst retry_from.simps) simp

lemma retry_from_fatal:
  "int attempt < max_attempts \<Longrightarrow> func s = (Inl e, s') \<Longrightarrow> \<not> is_retryable_error e \<Longrightarrow>
   retry_from max_attempts base_delay eb fname func attempt lexc s = (Inl e, s', [Call])"
  by (subst retry_from.simps) simp

lemma retry_from_last_attempt:
  "int attempt < max_attempts \<Longrightarrow> \<not> int attempt < max_attempts - 1 \<Longrightarrow>
   func s = (Inl e, s') \<Longrightarrow> is_retryable_error e \<Longrightarrow>
   retry_from max_attempts base_delay eb fname func attempt lexc s =
     (Inl (Exc AIServiceError
             (''All retry attempts failed in '' @ fname @ '': '' @ message e)), s',
      Call # log_ai_service_error fname e (attempt + 1))"
  by (subst retry_from.simps) (simp add: retry_from_done)

lemma time_sleep_None_iff: "time_sleep d = None \<longleftrightarrow> 0 \<le> d \<and> d \<le> sleep_max"
  by (auto simp: time_sleep_def)

lemma retry_from_sleep:
  "int attempt < max_attempts - 1 \<Longrightarrow> func s = (Inl e, s') \<Longrightarrow> is_retryable_error e \<Longrightarrow>
   delay = retry_delay base_delay eb attempt \<Longrightarrow> time_sleep delay = None \<Longrightarrow>
   retry_from max_attempts base_delay eb fname func (attempt + 1) (Some e) s' = (r, s'', evs) \<Longrightarrow>
   retry_from max_attempts base_delay eb fname func attempt lexc s =
     (r, s'', Call # (log_ai_service_error fname e (attempt + 1)
                       @ [LogRetryInfo fname delay (attempt + 1) max_attempts])
                @ [Sleep delay] @ evs)"
  by (subst retry_from.simps) (simp add: Let_def)

lemma retry_from_sleep_raises:
  "int attempt < max_attempts - 1 \<Longrightarrow> func s = (Inl e, s') \<Longrightarrow> is_retryable_error e \<Longrightarrow>
   delay = retry_delay base_delay eb attempt \<Longrightarrow> time_sleep delay = Some sleep_error \<Longrightarrow>
   retry_from max_attempts base_delay eb fname func attempt lexc s =
     (Inl sleep_error, s',
      Call # (log_ai_service_error fname e (attempt + 1)
                @ [LogRetryInfo fname delay (attempt + 1) max_attempts]))"
  by (subst retry_from.simps) (simp add: Let_def)

text \<open>
  With exponential backoff the delays grow, so they are all accepted by \<open>time.sleep\<close>
  when the base delay is not negative and the last delay is at most \<open>sleep_max\<close>.
\<close>

lemma retry_delays_accepted:
  assumes "0 \<le> base_delay"
    and "retry_delay base_delay eb (nat (n - 2)) \<le> sleep_max"
    and "int k < n - 1"
  shows "time_sleep (retry_delay base_delay eb k) = None"
proof -
  from assms(3) have "k \<le> nat (n - 2)" by simp
  then have "(2::rat) ^ k \<le> 2 ^ nat (n - 2)" by (simp add: power_increasing)
  then have "base_delay * 2 ^ k \<le> base_delay * 2 ^ nat (n - 2)"
    using assms(1) by (rule mult_left_mono)
  then have "retry_delay base_delay eb k \<le> retry_delay base_delay eb (nat (n - 2))"
    by (simp add: retry_delay_def)
  with assms(2) have "retry_delay base_delay eb k \<le> sleep_max" by simp
  moreover from assms(1) have "0 \<le> retry_delay base_delay eb k"
    by (simp add: retry_delay_def)
  ultimately show ?thesis by (simp add: time_sleep_None_iff)
qed





text \<open>
  Claim C5. If the first invocation of \<open>func\<close> raises an error that is classified as
  not retryable, the wrapper built by \<open>with_retry\<close> with at least one attempt (after
  the defaulting from the configuration) invokes \<open>func\<close> once, does not sleep, and raises
  that same error, not wrapped: its only effect is the one invocation.
\<close>

theorem with_retry_fatal:
  assumes "func s = (Inl e, s')"
    and "\<not> is_retryable_error e"
    and "1 \<le> py_or max_attempts (MAX_RETRY_ATTEMPTS cfg)"
  shows "with_retry cfg max_attempts base_delay eb fname func s = (Inl e, s', [Call])"
proof -
  from assms(3) have "int 0 < py_or max_attempts (MAX_RETRY_ATTEMPTS cfg)" by simp
  then have "retry_from (py_or max_attempts (MAX_RETRY_ATTEMPTS cfg))
               (py_or base_delay (RETRY_DELAY cfg)) eb fname func 0 None s = (Inl e, s', [Call])"
    using assms(1) assms(2) by (rule retry_from_fatal)
  then show ?thesis by (simp add: with_retry_def)
qed

text \<open>Claim C5 at an authentication error, with three attempts.\<close>

theorem with_retry_fatal_witness:
  "with_retry Config (Some 3) None True ''fetch'' fatal_once 0
     = (Inl (Exc Exception ''401 Unauthorized: invalid API key''), 1, [Call])
   \<and> count_list [Call] Call = 1 \<and> sleeps [Call] = []"
proof -
  have h1: "fatal_once 0 = (Inl (Exc Exception ''401 Unauthorized: invalid API key''), 1)"
    by (simp add: fatal_once_def)
  have h2: "\<not> is_retryable_error (Exc Exception ''401 Unauthorized: invalid API key'')"
    by code_simp
  have h3: "1 \<le> py_or (Some 3) (MAX_RETRY_ATTEMPTS Config)"
    by (simp add: py_or_def)
  have "with_retry Config (Some 3) None True ''fetch'' fatal_once 0
     = (Inl (Exc Exception ''401 Unauthorized: invalid API key''), 1, [Call])"
    using h1 h2 h3 by (rule with_retry_fatal)
  then show ?thesis by simp
qed

text \<open>
  With a positive base delay every delay slept is positive, and an iteration that runs
  invokes the function.
\<close>

lemma retry_from_sleeps_positive:
  assumes "0 < base_delay"
  shows "d \<in> set (sleeps (events (retry_from max_attempts base_delay eb fname func attempt lexc s)))
         \<Longrightarrow> 0 < d"
proof (induction "nat (max_attempts - int attempt)" arbitrary: attempt lexc s)
  case 0
  then have "\<not> int attempt < max_attempts" by simp
  with "0.prems" show ?case by (simp add: retry_from_done events_def)
next
  case (Suc k)
  then have lt: "int attempt < max_attempts" by simp
  obtain r s' where f: "func s = (r, s')" by (cases "func s")
  show ?case
  proof (cases r)
    case (Inr v)
    with Suc.prems lt f show ?thesis by (simp add: retry_from_success events_def)
  next
    case (Inl e)
    show ?thesis
    proof (cases "is_retryable_error e")
      case False
      with Suc.prems lt f Inl show ?thesis by (simp add: retry_from_fatal events_def)
    next
      case r: True
      define delay where "delay = retry_delay base_delay eb attempt"
      have dpos: "0 < delay" using assms by (simp add: delay_def retry_delay_def)
      show ?thesis
      proof (cases "int attempt < max_attempts - 1")
        case more: True
        show ?thesis
        proof (cases "time_sleep delay")
          case (Some sleep_error)
          have "retry_from max_attempts base_delay eb fname func attempt lexc s =
             (Inl sleep_error, s',
              Call # (log_ai_service_error fname e (attempt + 1)
                        @ [LogRetryInfo fname delay (attempt + 1) max_attempts]))"
            using more f [unfolded Inl] r delay_def Some by (rule retry_from_sleep_raises)
          with Suc.prems show ?thesis by (simp add: events_def)
        next
          case None
          obtain r2 s2 evs where
            rec: "retry_from max_attempts base_delay eb fname func (attempt + 1) (Some e) s'
                    = (r2, s2, evs)"
            by (cases "retry_from max_attempts base_delay eb fname func (attempt + 1) (Some e) s'")
          from Suc.hyps(2) have "k = nat (max_attempts - int (attempt + 1))" by simp
          from Suc.hyps(1) [OF this, of "Some e" s'] rec
          have ih: "d \<in> set (sleeps evs) \<Longrightarrow> 0 < d" by (simp add: events_def)
          have "retry_from max_attempts base_delay eb fname func attempt lexc s =
             (r2, s2, Call # (log_ai_service_error fname e (attempt + 1)
                       @ [LogRetryInfo fname delay (attempt + 1) max_attempts])
                @ [Sleep delay] @ evs)"
            using more f [unfolded Inl] r delay_def None rec by (rule retry_from_sleep)
          with Suc.prems ih dpos show ?thesis by (auto simp: events_def)
        qed
      next
        case nomore: False
        have "retry_from max_attempts base_delay eb fname func attempt lexc s =
           (Inl (Exc AIServiceError
                   (''All retry attempts failed in '' @ fname @ '': '' @ message e)), s',
            Call # log_ai_service_error fname e (attempt + 1))"
          using lt nomore f [unfolded Inl] r by (rule retry_from_last_attempt)
        with Suc.prems show ?thesis by (simp add: events_def)
      qed
    qed
  qed
qed

lemma retry_from_calls_once:
  "int attempt < max_attempts \<Longrightarrow>
   1 \<le> count_list (events (retry_from max_attempts base_delay eb fname func attempt lexc s)) Call"
  by (subst retry_from.simps)
     (simp add: events_def Let_def split: prod.splits sum.splits option.splits)

text \<open>
  Claim C10. With the configuration of the source, \<open>max_attempts=0\<close> is replaced by
  \<open>MAX_RETRY_ATTEMPTS = 3\<close> and \<open>base_delay=0\<close> by \<open>RETRY_DELAY = 1\<close>. So a wrapper
  built with \<open>max_attempts=0\<close> invokes the function at least once, and a wrapper built
  with \<open>base_delay=0\<close> only sleeps positive delays.
\<close>

theorem with_retry_zero_arguments:
  "py_or (Some 0) (MAX_RETRY_ATTEMPTS Config) = 3
   \<and> py_or (Some 0) (RETRY_DELAY Config) = 1
   \<and> 1 \<le> count_list (events (with_retry Config (Some 0) base_delay eb fname func s)) Call
   \<and> (\<forall>d \<in> set (sleeps (events (with_retry Config max_attempts (Some 0) eb fname func s))).
         0 < d)"
proof -
  have a: "py_or (Some 0) (MAX_RETRY_ATTEMPTS Config) = 3"
    and b: "py_or (Some 0) (RETRY_DELAY Config) = 1"
    by (simp_all add: py_or_def Config_def)
  have "int 0 < 3" by simp
  then have c: "1 \<le> count_list (events (retry_from 3 (py_or base_delay (RETRY_DELAY Config))
                                   eb fname func 0 None s)) Call"
    by (rule retry_from_calls_once)
  have d: "0 < d" if "d \<in> set (sleeps (events (retry_from
              (py_or max_attempts (MAX_RETRY_ATTEMPTS Config)) 1 eb fname func 0 None s)))" for d
    using _ that by (rule retry_from_sleeps_positive) simp
  from a b c d show ?thesis by (simp add: with_retry_def)
qed

text \<open>Claim C10 at a function that always times out, with both arguments zero.\<close>

theorem with_retry_zero_arguments_witness:
  "events (with_retry Config (Some 0) (Some 0) True ''fetch'' always_timeout 0)
     = [Call, LogAIServiceError ''AI service'' ''fetch'' (Exc Exception ''Connection timeout'') 1,
        LogRetryInfo ''fetch'' 1 1 3, Sleep 1,
        Call, LogAIServiceError ''AI service'' ''fetch'' (Exc Exception ''Connection timeout'') 2,
        LogRetryInfo ''fetch'' 2 2 3, Sleep 2,
        Call, LogAIServiceError ''AI service'' ''fetch'' (Exc Exception ''Connection timeout'') 3]
   \<and> list_all (\<lambda>d. 0 < d)
        (sleeps (events (with_retry Config (Some 0) (Some 0) True ''fetch'' always_timeout 0)))
   \<and> 1 \<le> count_list
        (events (with_retry Config (Some 0) (Some 0) True ''fetch'' always_timeout 0)) Call"
proof -
  have ev: "events (with_retry Config (Some 0) (Some 0) True ''fetch'' always_timeout 0)
     = [Call, LogAIServiceError ''AI service'' ''fetch'' (Exc Exception ''Connection timeout'') 1,
        LogRetryInfo ''fetch'' 1 1 3, Sleep 1,
        Call, LogAIServiceError ''AI service'' ''fetch'' (Exc Exception ''Connection timeout'') 2,
        LogRetryInfo ''fetch'' 2 2 3, Sleep 2,
        Call, LogAIServiceError ''AI service'' ''fetch'' (Exc Exception ''Connection timeout'') 3]"
    by code_simp
  from with_retry_zero_arguments
         [where base_delay = "Some 0" and max_attempts = "Some 0" and eb = True
            and fname = "''fetch''" and func = always_timeout and s = 0]
  have "1 \<le> count_list
        (events (with_retry Config (Some 0) (Some 0) True ''fetch'' always_timeout 0)) Call"
    and "\<forall>d \<in> set (sleeps (events
            (with_retry Config (Some 0) (Some 0) True ''fetch'' always_timeout 0))). 0 < d"
    by blast+
  with ev show ?thesis by (simp add: list_all_iff)
qed


section \<open>Language fallback\<close>

lemma lang_calls_log [simp]: "lang_calls (log_language_error cfg opname l e fb @ evs) = lang_calls evs"
  by (simp add: log_language_error_def)

lemma lang_calls_log_only [simp]: "lang_calls (log_language_error cfg opname l e fb) = []"
  by (simp add: log_language_error_def)

text \<open>
  The loop on a chain without duplicates: when the operation fails on the languages of
  \<open>pre\<close> and then succeeds on \<open>lang\<close>, the loop returns that result and has invoked the
  operation on \<open>pre\<close> and \<open>lang\<close> only; when it also fails on \<open>lang\<close>, the last of the
  chain, the loop raises \<open>LanguageError\<close> with the message of that last failure.
\<close>

lemma language_loop_success:
  "distinct fallback_chain \<Longrightarrow> fallback_chain = tried @ pre @ lang # post \<Longrightarrow>
   failing_prefix operation_func pre s = Some s1 \<Longrightarrow> operation_func lang s1 = (Inr v, s2) \<Longrightarrow>
   \<exists>evs. language_loop cfg opname operation_func fallback_chain (pre @ lang # post) s = (Inr v, s2, evs)
      \<and> lang_calls evs = pre @ [lang]"
proof (induction pre arbitrary: tried s)
  case Nil
  then show ?case by simp
next
  case (Cons l pre)
  from Cons.prems(3) obtain e s' where
    f: "operation_func l s = (Inl e, s')" and rest: "failing_prefix operation_func pre s' = Some s1"
    by (auto split: prod.splits sum.splits)
  from Cons.prems(1,2) have nl: "l \<noteq> last fallback_chain" by auto
  from Cons.prems(2) have "fallback_chain = (tried @ [l]) @ pre @ lang # post" by simp
  from Cons.IH [OF Cons.prems(1) this rest Cons.prems(4)]
  obtain evs where
    "language_loop cfg opname operation_func fallback_chain (pre @ lang # post) s' = (Inr v, s2, evs)"
    "lang_calls evs = pre @ [lang]"
    by blast
  with f nl show ?case by simp
qed

lemma language_loop_exhausted:
  "distinct fallback_chain \<Longrightarrow> fallback_chain = tried @ pre @ [lang] \<Longrightarrow>
   failing_prefix operation_func pre s = Some s1 \<Longrightarrow> operation_func lang s1 = (Inl e, s2) \<Longrightarrow>
   \<exists>evs. language_loop cfg opname operation_func fallback_chain (pre @ [lang]) s
        = (Inl (Exc LanguageError
                  (''All language fallbacks failed for '' @ opname @ '': '' @ message e)), s2, evs)
      \<and> lang_calls evs = pre @ [lang]"
proof (induction pre arbitrary: tried s)
  case Nil
  then show ?case by simp
next
  case (Cons l pre)
  from Cons.prems(3) obtain e' s' where
    f: "operation_func l s = (Inl e', s')" and rest: "failing_prefix operation_func pre s' = Some s1"
    by (auto split: prod.splits sum.splits)
  from Cons.prems(1,2) have nl: "l \<noteq> last fallback_chain" by auto
  from Cons.prems(2) have "fallback_chain = (tried @ [l]) @ pre @ [lang]" by simp
  from Cons.IH [OF Cons.prems(1) this rest Cons.prems(4)]
  obtain evs where
    "language_loop cfg opname operation_func fallback_chain (pre @ [lang]) s'
        = (Inl (Exc LanguageError
                  (''All language fallbacks failed for '' @ opname @ '': '' @ message e)), s2, evs)"
    "lang_calls evs = pre @ [lang]"
    by blast
  with f nl show ?case by simp
qed

text \<open>
  Claim C7. Let \<open>chain\<close> be the fallback chain of the requested language. If the
  operation fails on the candidates \<open>pre\<close> that come before \<open>lang\<close> in the chain and
  succeeds on \<open>lang\<close>, \<open>handle_language_operation\<close> returns the result of that call, and
  the operation has been invoked on \<open>pre\<close> and \<open>lang\<close>, in order, and on no later
  candidate. If the operation fails on every candidate of the chain,
  \<open>handle_language_operation\<close> raises \<open>LanguageError\<close>, whose message ends with the
  message of the failure on the last candidate.
\<close>

theorem handle_language_operation_first_success:
  assumes "get_language_fallback_chain language = Inr chain"
  shows "(chain = pre @ lang # post \<and> failing_prefix operation_func pre s = Some s1
            \<and> operation_func lang s1 = (Inr v, s2)
          \<longrightarrow> (\<exists>evs. handle_language_operation cfg opname language operation_func s = (Inr v, s2, evs)
                  \<and> lang_calls evs = pre @ [lang]))
       \<and> (chain = pre @ [lang] \<and> failing_prefix operation_func pre s = Some s1
            \<and> operation_func lang s1 = (Inl e, s2)
          \<longrightarrow> (\<exists>evs. handle_language_operation cfg opname language operation_func s
                    = (Inl (Exc LanguageError
                         (''All language fallbacks failed for '' @ opname @ '': '' @ message e)),
                       s2, evs)
                  \<and> lang_calls evs = chain))"
proof -
  have d: "distinct chain" using assms by (rule get_language_fallback_chain_distinct)
  have a: "\<exists>evs. handle_language_operation cfg opname language operation_func s = (Inr v, s2, evs)
                  \<and> lang_calls evs = pre @ [lang]"
    if "chain = pre @ lang # post" "failing_prefix operation_func pre s = Some s1"
       "operation_func lang s1 = (Inr v, s2)"
  proof -
    from that(1) have "chain = [] @ pre @ lang # post" by simp
    from language_loop_success [OF d this that(2) that(3), of cfg opname] that(1) assms
    show ?thesis by (simp add: handle_language_operation_def)
  qed
  have b: "\<exists>evs. handle_language_operation cfg opname language operation_func s
                    = (Inl (Exc LanguageError
                         (''All language fallbacks failed for '' @ opname @ '': '' @ message e)),
                       s2, evs)
                  \<and> lang_calls evs = chain"
    if "chain = pre @ [lang]" "failing_prefix operation_func pre s = Some s1"
       "operation_func lang s1 = (Inl e, s2)"
  proof -
    from that(1) have "chain = [] @ pre @ [lang]" by simp
    from language_loop_exhausted [OF d this that(2) that(3), of cfg opname] that(1) assms
    show ?thesis by (simp add: handle_language_operation_def)
  qed
  from a b show ?thesis by blast
qed

text \<open>
  Claim C7 for the request \<open>"hi"\<close>: an operation that works for \<open>"en"\<close> only, and one
  that never works.
\<close>

theorem handle_language_operation_first_success_witness:
  "get_language_fallback_chain (PStr ''hi'') = Inr [''hi'', ''en'']
   \<and> fst (handle_language_operation Config ''summarize'' (PStr ''hi'') english_only 0)
       = Inr ''summary''
   \<and> lang_calls (events (handle_language_operation Config ''summarize'' (PStr ''hi'')
                           english_only 0)) = [''hi'', ''en'']
   \<and> fst (handle_language_operation Config ''summarize'' (PStr ''hi'') never_works 0)
       = Inl (Exc LanguageError ''All language fallbacks failed for summarize: failed for en'')
   \<and> lang_calls (events (handle_language_operation Config ''summarize'' (PStr ''hi'')
                           never_works 0)) = [''hi'', ''en'']"
proof -
  have chain: "get_language_fallback_chain (PStr ''hi'') = Inr [''hi'', ''en'']" by code_simp
  have a: "[''hi'', ''en''] = [''hi''] @ ''en'' # [] \<and> failing_prefix english_only [''hi''] 0 = Some 1
            \<and> english_only ''en'' 1 = (Inr ''summary'', 2)"
    by (simp add: english_only_def)
  have b: "[''hi'', ''en''] = [''hi''] @ [''en''] \<and> failing_prefix never_works [''hi''] 0 = Some 1
            \<and> never_works ''en'' 1 = (Inl (Exc Exception ''failed for en''), 2)"
    by (simp add: never_works_def)
  from handle_language_operation_first_success [OF chain,
         where pre = "[''hi'']" and lang = "''en''" and post = "[]" and operation_func = english_only
           and s = 0 and ?s1.0 = 1 and v = "''summary''" and ?s2.0 = 2 and cfg = Config
           and opname = "''summarize''"] a
  obtain evs where
    "handle_language_operation Config ''summarize'' (PStr ''hi'') english_only 0
       = (Inr ''summary'', 2, evs)" "lang_calls evs = [''hi''] @ [''en'']"
    by blast
  then have r1: "fst (handle_language_operation Config ''summarize'' (PStr ''hi'') english_only 0)
       = Inr ''summary''"
    and r2: "lang_calls (events (handle_language_operation Config ''summarize'' (PStr ''hi'')
                           english_only 0)) = [''hi'', ''en'']"
    by (simp_all add: events_def)
  from handle_language_operation_first_success [OF chain,
         where pre = "[''hi'']" and lang = "''en''" and operation_func = never_works
           and s = 0 and ?s1.0 = 1 and e = "Exc Exception ''failed for en''" and ?s2.0 = 2
           and cfg = Config and opname = "''summarize''"] b
  obtain evs' where
    "handle_language_operation Config ''summarize'' (PStr ''hi'') never_works 0
       = (Inl (Exc LanguageError
                 (''All language fallbacks failed for '' @ ''summarize'' @ '': ''
                    @ message (Exc Exception ''failed for en''))), 2, evs')"
    "lang_calls evs' = [''hi'', ''en'']"
    by blast
  then have r3: "fst (handle_language_operation Config ''summarize'' (PStr ''hi'') never_works 0)
       = Inl (Exc LanguageError ''All language fallbacks failed for summarize: failed for en'')"
    and r4: "lang_calls (events (handle_language_operation Config ''summarize'' (PStr ''hi'')
                           never_works 0)) = [''hi'', ''en'']"
    by (simp_all add: events_def)
  from chain r1 r2 r3 r4 show ?thesis by blast
qed


section \<open>Sentiment fallback\<close>

text \<open>
  Claim C8. For \<open>handle_sentiment_operation\<close> and for the decorator
  \<open>with_sentiment_fallback\<close> with its default argument: a result of the operation is
  returned unchanged; when the operation raises and \<open>SENTIMENT_FALLBACK_ENABLED\<close> is set
  (as it is in \<open>Config\<close>), the wrapper returns \<open>"neutral"\<close>; the wrapper raises if and only
  if the setting is off and the operation raises, and what it raises then is a
  \<open>SentimentAnalysisError\<close>.
\<close>

theorem sentiment_fallback:
  "(operation_func s = (Inr v, s')
      \<longrightarrow> handle_sentiment_operation cfg opname operation_func s = (Inr v, s', [Call])
        \<and> with_sentiment_fallback cfg ''neutral'' opname operation_func s = (Inr v, s', [Call]))
   \<and> (operation_func s = (Inl e, s') \<and> SENTIMENT_FALLBACK_ENABLED cfg
      \<longrightarrow> fst (handle_sentiment_operation cfg opname operation_func s) = Inr ''neutral''
        \<and> fst (with_sentiment_fallback cfg ''neutral'' opname operation_func s) = Inr ''neutral'')
   \<and> ((\<exists>x. fst (handle_sentiment_operation cfg opname operation_func s) = Inl x)
        \<longleftrightarrow> \<not> SENTIMENT_FALLBACK_ENABLED cfg \<and> (\<exists>e s'. operation_func s = (Inl e, s')))
   \<and> ((\<exists>x. fst (with_sentiment_fallback cfg ''neutral'' opname operation_func s) = Inl x)
        \<longleftrightarrow> \<not> SENTIMENT_FALLBACK_ENABLED cfg \<and> (\<exists>e s'. operation_func s = (Inl e, s')))
   \<and> (\<forall>x. fst (handle_sentiment_operation cfg opname operation_func s) = Inl x
        \<or> fst (with_sentiment_fallback cfg ''neutral'' opname operation_func s) = Inl x
        \<longrightarrow> exc_class x = SentimentAnalysisError)
   \<and> SENTIMENT_FALLBACK_ENABLED Config"
proof -
  obtain r t where f: "operation_func s = (r, t)" by (cases "operation_func s")
  show ?thesis
  proof (cases r)
    case (Inl e0)
    with f show ?thesis
      by (auto simp: handle_sentiment_operation_def with_sentiment_fallback_def
            get_sentiment_fallback_def Config_def Let_def)
  next
    case (Inr v0)
    with f show ?thesis
      by (auto simp: handle_sentiment_operation_def with_sentiment_fallback_def Config_def)
  qed
qed

text \<open>
  Claim C8 at an operation that raises, with the fallback on and off, and at one that
  returns.
\<close>

theorem sentiment_fallback_witness:
  "fst (handle_sentiment_operation Config ''sentiment'' failing_sentiment 0) = Inr ''neutral''
   \<and> fst (with_sentiment_fallback Config ''neutral'' ''classify'' failing_sentiment 0)
       = Inr ''neutral''
   \<and> handle_sentiment_operation Config ''sentiment'' positive_sentiment 0
       = (Inr ''positive'', 1, [Call])
   \<and> fst (handle_sentiment_operation (Config\<lparr>SENTIMENT_FALLBACK_ENABLED := False\<rparr>)
            ''sentiment'' failing_sentiment 0)
       = Inl (Exc SentimentAnalysisError
                ''Sentiment analysis failed for sentiment: model unavailable'')"
proof -
  have f: "failing_sentiment 0 = (Inl (Exc Exception ''model unavailable''), 1)"
    by (simp add: failing_sentiment_def)
  have p: "positive_sentiment 0 = (Inr ''positive'', 1)"
    by (simp add: positive_sentiment_def)
  have on: "SENTIMENT_FALLBACK_ENABLED Config" by (simp add: Config_def)
  have off: "fst (handle_sentiment_operation (Config\<lparr>SENTIMENT_FALLBACK_ENABLED := False\<rparr>)
            ''sentiment'' failing_sentiment 0)
       = Inl (Exc SentimentAnalysisError
                ''Sentiment analysis failed for sentiment: model unavailable'')"
    by (simp add: handle_sentiment_operation_def failing_sentiment_def)
  from sentiment_fallback [where operation_func = failing_sentiment and s = 0 and s' = 1
         and e = "Exc Exception ''model unavailable''" and cfg = Config
         and opname = "''sentiment''"] f on
  have a: "fst (handle_sentiment_operation Config ''sentiment'' failing_sentiment 0)
             = Inr ''neutral''"
    by blast
  from sentiment_fallback [where operation_func = failing_sentiment and s = 0 and s' = 1
         and e = "Exc Exception ''model unavailable''" and cfg = Config
         and opname = "''classify''"] f on
  have b: "fst (with_sentiment_fallback Config ''neutral'' ''classify'' failing_sentiment 0)
             = Inr ''neutral''"
    by blast
  from sentiment_fallback [where operation_func = positive_sentiment and s = 0 and s' = 1
         and v = "''positive''" and cfg = Config and opname = "''sentiment''"] p
  have c: "handle_sentiment_operation Config ''sentiment'' positive_sentiment 0
       = (Inr ''positive'', 1, [Call])"
    by blast
  from a b c off show ?thesis by blast
qed


section \<open>Fallback summary\<close>

text \<open>
  Splitting on \<open>". "\<close> and joining again gives the text back, so the fragments are the
  pieces of the text between the separators.
\<close>

lemma split_dot_space_nonempty: "split_dot_space acc s \<noteq> []"
  by (induction acc s rule: split_dot_space.induct) auto

lemma join_Cons: "xs \<noteq> [] \<Longrightarrow> join sep (x # xs) = x @ sep @ join sep xs"
  by (cases xs) auto

lemma join_split_dot_space: "join ''. '' (split_dot_space acc s) = rev acc @ s"
  by (induction acc s rule: split_dot_space.induct)
     (auto simp: join_Cons split_dot_space_nonempty)

lemma slice_to_nonneg: "0 \<le> n \<Longrightarrow> slice_to s n = take (nat n) s"
  by (simp add: slice_to_def)

text \<open>
  Claim C9, as stated, fails in its last case: the truncated text is stripped before
  \<open>"..."\<close> is appended, so a text cut after a space does not give the first
  \<open>max_length\<close> characters followed by \<open>"..."\<close>.
\<close>

theorem create_fallback_summary_truncation_counterexample:
  "9 < int (length (strip ''Breaking news today''))
   \<and> length (split_dot_space [] (strip ''Breaking news today'')) = 1
   \<and> create_fallback_summary ''Breaking news today'' 9 = ''Breaking...''
   \<and> take 9 (strip ''Breaking news today'') @ ''...'' = ''Breaking ...''"
  by code_simp

text \<open>
  Claim C9 (amended). For every text and \<open>max_length\<close>: an empty or whitespace-only text
  gives \<open>"No content available for summary."\<close>; a text whose trimmed form is not longer
  than \<open>max_length\<close> gives the trimmed text; a longer text whose split on \<open>". "\<close> has at
  least two fragments, the first two of which joined by \<open>". "\<close> and followed by \<open>"."\<close>
  fit \<open>max_length\<close>, gives that join; every other text gives the slice
  \<open>text[:max_length]\<close> of the trimmed text, stripped of surrounding whitespace, followed
  by \<open>"..."\<close>.
\<close>

theorem create_fallback_summary_cases:
  "(article_text = [] \<or> (\<forall>c \<in> set article_text. isspace c)
      \<longrightarrow> create_fallback_summary article_text max_length = ''No content available for summary.'')
   \<and> (strip article_text \<noteq> [] \<and> int (length (strip article_text)) \<le> max_length
      \<longrightarrow> create_fallback_summary article_text max_length = strip article_text)
   \<and> (strip article_text \<noteq> [] \<and> max_length < int (length (strip article_text))
        \<and> split_dot_space [] (strip article_text) = frag1 # frag2 # others
        \<and> int (length (frag1 @ ''. '' @ frag2 @ ''.'')) \<le> max_length
      \<longrightarrow> create_fallback_summary article_text max_length = frag1 @ ''. '' @ frag2 @ ''.'')
   \<and> (strip article_text \<noteq> [] \<and> max_length < int (length (strip article_text))
        \<and> (length (split_dot_space [] (strip article_text)) < 2
            \<or> max_length < int (length (join ''. '' (take 2 (split_dot_space []
                                    (strip article_text))) @ ''.'')))
      \<longrightarrow> create_fallback_summary article_text max_length
            = strip (slice_to (strip article_text) max_length) @ ''...'')"
proof -
  have e: "strip article_text = []" if "article_text = [] \<or> (\<forall>c \<in> set article_text. isspace c)"
    using that by (auto simp: strip_empty_iff)
  have ne: "article_text \<noteq> []" if "strip article_text \<noteq> []"
    using that by (auto simp: strip_empty_iff)
  show ?thesis
    using e ne by (auto simp: create_fallback_summary_def Let_def)
qed

text \<open>The amended claim C9 at one text for each of its four cases.\<close>

theorem create_fallback_summary_cases_witness:
  "create_fallback_summary [] 200 = ''No content available for summary.''
   \<and> create_fallback_summary ''  Short text. '' 200 = ''Short text.''
   \<and> create_fallback_summary
         ''First sentence. Second sentence. Third sentence not included.'' 50
       = ''First sentence. Second sentence.''
   \<and> create_fallback_summary ''Breaking news today'' 9 = ''Breaking...''"
proof -
  from create_fallback_summary_cases [where article_text = "[]" and max_length = 200]
  have r1: "create_fallback_summary [] 200 = ''No content available for summary.''"
    by blast
  have h2: "strip ''  Short text. '' \<noteq> [] \<and> int (length (strip ''  Short text. '')) \<le> 200"
    by code_simp
  have v2: "strip ''  Short text. '' = ''Short text.''" by code_simp
  from create_fallback_summary_cases [where article_text = "''  Short text. ''"
         and max_length = 200] h2
  have "create_fallback_summary ''  Short text. '' 200 = strip ''  Short text. ''"
    by blast
  with v2 have r2: "create_fallback_summary ''  Short text. '' 200 = ''Short text.''"
    by simp
  have h3: "strip ''First sentence. Second sentence. Third sentence not included.'' \<noteq> []
      \<and> 50 < int (length (strip
                ''First sentence. Second sentence. Third sentence not included.''))
      \<and> split_dot_space []
            (strip ''First sentence. Second sentence. Third sentence not included.'')
          = ''First sentence'' # ''Second sentence'' # [''Third sentence not included.'']
      \<and> int (length (''First sentence'' @ ''. '' @ ''Second sentence'' @ ''.'')) \<le> 50"
    by code_simp
  from create_fallback_summary_cases
         [where article_text = "''First sentence. Second sentence. Third sentence not included.''"
            and max_length = 50 and ?frag1.0 = "''First sentence''"
            and ?frag2.0 = "''Second sentence''"
            and others = "[''Third sentence not included.'']"] h3
  have "create_fallback_summary
          ''First sentence. Second sentence. Third sentence not included.'' 50
        = ''First sentence'' @ ''. '' @ ''Second sentence'' @ ''.''"
    by blast
  then have r3: "create_fallback_summary
          ''First sentence. Second sentence. Third sentence not included.'' 50
        = ''First sentence. Second sentence.''"
    by simp
  have h4: "strip ''Breaking news today'' \<noteq> []
      \<and> 9 < int (length (strip ''Breaking news today''))
      \<and> length (split_dot_space [] (strip ''Breaking news today'')) < 2"
    by code_simp
  have v4: "strip (slice_to (strip ''Breaking news today'') 9) @ ''...'' = ''Breaking...''"
    by code_simp
  from create_fallback_summary_cases [where article_text = "''Breaking news today''"
         and max_length = 9] h4
  have "create_fallback_summary ''Breaking news today'' 9
          = strip (slice_to (strip ''Breaking news today'') 9) @ ''...''"
    by blast
  with v4 have r4: "create_fallback_summary ''Breaking news today'' 9 = ''Breaking...''"
    by simp
  from r1 r2 r3 r4 show ?thesis by blast
qed

end
